theory Spec2Isabelle
  imports Complex_Main "HOL-Library.AList"
begin

section \<open>Candidate-signature extraction (ExtractSignatures.py)\<close>

text \<open>
  A shallow embedding of \<^verbatim>\<open>src/neptune/ExtractSignatures.py\<close>. Python strings are
  \<^typ>\<open>string\<close>, Python integers are \<^typ>\<open>int\<close>, a Python dictionary is an association
  list in iteration order, and every \<^verbatim>\<open>raise\<close> is an \<open>Inl\<close> result. The operations on
  Python floats are parameters of the estimators; the exceptions that float arithmetic
  raises in Python (division by zero, the square root of a negative number) are written
  out.
\<close>

subsection \<open>Python values\<close>

datatype error =
    RuntimeError string
  | ValueError
  | ZeroDivisionError
  | OverflowError
  | IndexError

type_synonym 'v dict = "(string \<times> 'v) list"

text \<open>\<^verbatim>\<open>key in d\<close> for a dictionary.\<close>

definition has_key :: "'v dict \<Rightarrow> string \<Rightarrow> bool" where
  "has_key d x = (x \<in> set (map fst d))"

text \<open>\<^verbatim>\<open>x is None or len(x) < 1\<close> for an optional collection.\<close>

definition none_or_empty :: "'a list option \<Rightarrow> bool" where
  "none_or_empty x = (case x of None \<Rightarrow> True | Some xs \<Rightarrow> length xs < 1)"

definition contents :: "'a list option \<Rightarrow> 'a list" where
  "contents x = (case x of None \<Rightarrow> [] | Some xs \<Rightarrow> xs)"

text \<open>
  A slice bound is clamped as Python does: a negative bound counts from the end of the
  sequence, and the result is kept within \<open>0 .. n\<close>.
\<close>

definition slice_bound :: "int \<Rightarrow> int \<Rightarrow> int" where
  "slice_bound n i = (if i < 0 then max 0 (i + n) else min i n)"

text \<open>\<^verbatim>\<open>s[a:b]\<close>.\<close>

definition py_slice :: "'a list \<Rightarrow> int \<Rightarrow> int \<Rightarrow> 'a list" where
  "py_slice s a b =
     (let n = int (length s); lo = slice_bound n a; hi = slice_bound n b
      in take (nat (hi - lo)) (drop (nat lo) s))"

text \<open>The characters that \<^verbatim>\<open>str.strip()\<close> and \<^verbatim>\<open>str.split()\<close> treat as whitespace.\<close>

definition is_space :: "char \<Rightarrow> bool" where
  "is_space c = (c \<in> {CHR '' '', CHR 0x09, CHR 0x0A, CHR 0x0B, CHR 0x0C, CHR 0x0D})"

text \<open>\<^verbatim>\<open>s.strip()\<close>.\<close>

definition strip :: "string \<Rightarrow> string" where
  "strip s = rev (dropWhile is_space (rev (dropWhile is_space s)))"

subsection \<open>Reverse complement\<close>

text \<open>
  Modelled from the spec: \<^verbatim>\<open>Utility.reverseComplement\<close> is imported by the source file
  and is not part of it. The spec describes it as the sequence obtained by reversing a
  strand and substituting each base with its Watson-Crick pair. Characters that are not
  one of the four bases are kept. The scanner below takes the function as a parameter.
\<close>

fun complement :: "char \<Rightarrow> char" where
  "complement c =
     (if c = CHR ''A'' then CHR ''T''
      else if c = CHR ''T'' then CHR ''A''
      else if c = CHR ''C'' then CHR ''G''
      else if c = CHR ''G'' then CHR ''C''
      else c)"

definition reverseComplement :: "string \<Rightarrow> string" where
  "reverseComplement s = map complement (rev s)"

subsection \<open>Regions and signatures\<close>

record Region =
  sequence :: string
  reference :: string
  position :: int

text \<open>
  Modelled from the spec: the class \<^verbatim>\<open>Signature.Signature\<close> and the function
  \<^verbatim>\<open>Signature.writeSignature\<close> are imported by the source file and are not part of it.
  The spec describes the record as a sequential id, three scoring fields, the sequence,
  the source reference id and the start position. The output file is modelled as the
  list of the records written to it, in order.
\<close>

record Signature =
  sig_id :: nat
  sig_score :: real
  sig_inscore :: real
  sig_exscore :: real
  sig_sequence :: string
  sig_reference :: string
  sig_position :: int

text \<open>
  The last loop of \<^verbatim>\<open>extract\<close>:
  \<^verbatim>\<open>for i in range(len(regions)): writeSignature(Signature(i, 0.0, 0.0, 0.0, ...))\<close>.
\<close>

definition writeSignatures :: "Region list \<Rightarrow> Signature list" where
  "writeSignatures regions =
     map (\<lambda>i. \<lparr>sig_id = i, sig_score = 0, sig_inscore = 0, sig_exscore = 0,
               sig_sequence = sequence (regions ! i),
               sig_reference = reference (regions ! i),
               sig_position = position (regions ! i)\<rparr>)
         [0 ..< length regions]"

subsection \<open>The scanner\<close>

text \<open>
  \<^verbatim>\<open>if (end - start) >= size: regions.append(Region(ref[start:end], key, start))\<close>,
  the statement that closes a chain at all three places of the loop.
\<close>

definition close_chain ::
  "string \<Rightarrow> string \<Rightarrow> int \<Rightarrow> int \<Rightarrow> int \<Rightarrow> Region list \<Rightarrow> Region list" where
  "close_chain ref key size' start fin regions =
     (if fin - start \<ge> size'
      then regions @ [\<lparr>sequence = py_slice ref start fin, reference = key, position = start\<rparr>]
      else regions)"

text \<open>
  The body of the loop over the windows of one reference. The state is the triple of the
  local variables \<^verbatim>\<open>start\<close>, \<^verbatim>\<open>end\<close> and \<^verbatim>\<open>regions\<close>; \<open>rc\<close> is the reverse complement.
  The two tests of the inclusion branch are sequential, as in the source: a chain that
  the first test opens is seen by the second.
\<close>

fun window ::
  "(string \<Rightarrow> string) \<Rightarrow> string \<Rightarrow> string \<Rightarrow> int \<Rightarrow> 'a dict \<Rightarrow> 'b dict \<Rightarrow> int \<Rightarrow> int \<Rightarrow>
   int \<times> int \<times> Region list \<Rightarrow> int \<Rightarrow> int \<times> int \<times> Region list" where
  "window rc ref key k inmers exmers size' gap (start, fin, regions) i =
     (let kmer = py_slice ref i (i + k);
          reverse = rc kmer
      in if has_key exmers kmer \<or> has_key exmers reverse then
           (- 1, - 1, close_chain ref key size' start fin regions)
         else if has_key inmers kmer \<or> has_key inmers reverse then
           (let (start1, fin1) =
                  (if start < 0 \<and> fin < 0 then (i + k - 1, i + 1) else (start, fin))
            in if start1 \<ge> 0 \<and> fin1 \<ge> 0 then
                 (if i - (fin1 + 1) \<le> gap then (start1, i + 1, regions)
                  else (i + k - 1, i + 1, close_chain ref key size' start1 fin1 regions))
               else (start1, fin1, regions))
         else (start, fin, regions))"

text \<open>\<^verbatim>\<open>range(n)\<close> for a Python integer \<open>n\<close>.\<close>

definition py_range :: "int \<Rightarrow> int list" where
  "py_range n = map int [0 ..< nat n]"

text \<open>
  The body of the loop over the references: the scan of one reference, which starts
  with no chain, and the closing of the chain that is open after the last window.
\<close>

fun scan_reference ::
  "(string \<Rightarrow> string) \<Rightarrow> int \<Rightarrow> 'a dict \<Rightarrow> 'b dict \<Rightarrow> int \<Rightarrow> int \<Rightarrow>
   Region list \<Rightarrow> string \<times> string \<Rightarrow> Region list" where
  "scan_reference rc k inmers exmers size' gap regions (key, ref) =
     (case foldl (window rc ref key k inmers exmers size' gap) (- 1, - 1, regions)
                 (py_range (int (length (strip ref)) - k + 1)) of
        (start, fin, regions') \<Rightarrow>
          if start \<ge> 0 \<and> fin > 0 \<and> fin - start \<ge> size'
          then regions' @ [\<lparr>sequence = py_slice ref start fin, reference = key,
                            position = start\<rparr>]
          else regions')"

text \<open>
  \<^verbatim>\<open>extract(references, k, inmers, exmers, size, gap, outputFile)\<close>. The dictionary
  \<^verbatim>\<open>references\<close> is the list of its items in iteration order. An argument that may be
  \<^verbatim>\<open>None\<close> is an option. The result is the list of the signatures written. The
  function is named \<open>extract_signatures\<close> here.
\<close>

definition extract_signatures ::
  "(string \<Rightarrow> string) \<Rightarrow> string dict option \<Rightarrow> int \<Rightarrow> 'a dict option \<Rightarrow> 'b dict option \<Rightarrow>
   int \<Rightarrow> int \<Rightarrow> 'f option \<Rightarrow> error + Signature list" where
  "extract_signatures rc references k inmers exmers size' gap outputFile =
     (if none_or_empty references then Inl (RuntimeError ''There are no references.'')
      else if k < 1 then Inl (RuntimeError ''The k-mer size is out of range.'')
      else if none_or_empty inmers then Inl (RuntimeError ''There are no inclusion k-mers.'')
      else if exmers = None then Inl (RuntimeError ''There are no exclusion k-mers.'')
      else if size' < 1 then Inl (RuntimeError ''The signature size is out of range.'')
      else if gap < 1 then Inl (RuntimeError ''The gap size is out of range.'')
      else if outputFile = None then
        Inl (RuntimeError ''The output location is not specified.'')
      else Inr (writeSignatures
                  (foldl (scan_reference rc k (contents inmers) (contents exmers) size' gap)
                         [] (contents references))))"


text \<open>
  The invariant of the scan before window \<open>i\<close>: no chain is open (both variables are
  \<open>-1\<close>), or a chain is open whose cursor lies at or before \<open>i\<close>.
\<close>

definition chain_ok :: "int \<Rightarrow> int \<times> int \<times> Region list \<Rightarrow> bool" where
  "chain_ok i st =
     (case st of (start, fin, regions) \<Rightarrow>
        (start = - 1 \<and> fin = - 1) \<or> (0 \<le> start \<and> 1 \<le> fin \<and> fin \<le> i))"

text \<open>
  A well-formed region of a reference collection: it names one of the references, lies
  inside it, has at least the minimum size and stores the slice at its position.
\<close>

definition region_ok :: "string dict \<Rightarrow> int \<Rightarrow> Region \<Rightarrow> bool" where
  "region_ok refs size' r =
     (\<exists>ref. (reference r, ref) \<in> set refs \<and> 0 \<le> position r \<and>
            size' \<le> int (length (sequence r)) \<and>
            position r + int (length (sequence r)) \<le> int (length ref) \<and>
            sequence r = py_slice ref (position r) (position r + int (length (sequence r))))"

subsection \<open>Float arithmetic\<close>

text \<open>Sequencing of computations that may raise.\<close>

definition bind :: "error + 'a \<Rightarrow> ('a \<Rightarrow> error + 'b) \<Rightarrow> error + 'b" where
  "bind m f = (case m of Inl e \<Rightarrow> Inl e | Inr v \<Rightarrow> f v)"

text \<open>
  The estimators compute in Python floats, which are IEEE doubles: every operation
  rounds, a result can be infinite, and \<^verbatim>\<open>math.pow\<close> is the one of the C library. None of
  this is fixed here. A float is a value of a type \<open>'f\<close>, and the operations on floats
  are the fields of a record that every estimator takes as its first argument, so that
  what is proved for every such record holds for the doubles of the source as it holds
  for the reals. The fields are: the float of a numeric argument or literal in the
  range of the doubles (\<open>lit\<close>), \<^verbatim>\<open>float(n)\<close> for an integer, which raises when \<open>n\<close> is too
  large (\<open>float_of_int\<close>), the four operations, \<^verbatim>\<open>math.pow\<close> with what it raises,
  the square root, \<^verbatim>\<open>math.ceil\<close> and \<^verbatim>\<open>math.floor\<close>, which return floats, \<^verbatim>\<open>int(x)\<close>,
  which raises on an infinite float, and the comparisons \<^verbatim>\<open><\<close> and \<^verbatim>\<open>==\<close>.
\<close>

record 'f float_arith =
  lit :: "real \<Rightarrow> 'f"
  float_of_int :: "int \<Rightarrow> error + 'f"
  fadd :: "'f \<Rightarrow> 'f \<Rightarrow> 'f"
  fsub :: "'f \<Rightarrow> 'f \<Rightarrow> 'f"
  fmul :: "'f \<Rightarrow> 'f \<Rightarrow> 'f"
  fdiv :: "'f \<Rightarrow> 'f \<Rightarrow> 'f"
  fpow :: "'f \<Rightarrow> 'f \<Rightarrow> error + 'f"
  fsqrt :: "'f \<Rightarrow> 'f"
  fceil :: "'f \<Rightarrow> 'f"
  ffloor :: "'f \<Rightarrow> 'f"
  to_int :: "'f \<Rightarrow> error + int"
  flt :: "'f \<Rightarrow> 'f \<Rightarrow> bool"
  feq :: "'f \<Rightarrow> 'f \<Rightarrow> bool"

text \<open>Float division \<^verbatim>\<open>a / b\<close>, which raises when the divisor equals zero.\<close>

definition py_div :: "'f float_arith \<Rightarrow> 'f \<Rightarrow> 'f \<Rightarrow> error + 'f" where
  "py_div ar a b = (if feq ar b (lit ar 0) then Inl ZeroDivisionError else Inr (fdiv ar a b))"

text \<open>\<^verbatim>\<open>math.sqrt(x)\<close>, which raises \<^verbatim>\<open>ValueError\<close> on a negative argument.\<close>

definition py_sqrt :: "'f float_arith \<Rightarrow> 'f \<Rightarrow> error + 'f" where
  "py_sqrt ar x = (if flt ar x (lit ar 0) then Inl ValueError else Inr (fsqrt ar x))"

text \<open>\<^verbatim>\<open>max(0.0, x)\<close>: the second argument when it is greater than the first.\<close>

definition py_max0 :: "'f float_arith \<Rightarrow> 'f \<Rightarrow> 'f" where
  "py_max0 ar x = (if flt ar (lit ar 0) x then x else lit ar 0)"

text \<open>\<^verbatim>\<open>int(x)\<close> for a real: truncation towards zero.\<close>

definition int_of_float :: "real \<Rightarrow> int" where
  "int_of_float x = (if 0 \<le> x then \<lfloor>x\<rfloor> else \<lceil>x\<rceil>)"

text \<open>
  The arithmetic of the reals: nothing rounds and nothing overflows. Its power is the
  one of whole exponents, the only ones that the estimators use.
\<close>

definition exact :: "real float_arith" where
  "exact = \<lparr>lit = (\<lambda>x. x), float_of_int = (\<lambda>n. Inr (real_of_int n)),
            fadd = (\<lambda>x y. x + y), fsub = (\<lambda>x y. x - y), fmul = (\<lambda>x y. x * y),
            fdiv = (\<lambda>x y. x / y), fpow = (\<lambda>x y. Inr (x ^ nat \<lfloor>y\<rfloor>)), fsqrt = sqrt,
            fceil = (\<lambda>x. real_of_int \<lceil>x\<rceil>), ffloor = (\<lambda>x. real_of_int \<lfloor>x\<rfloor>),
            to_int = (\<lambda>x. Inr (int_of_float x)),
            flt = (\<lambda>x y. x < y), feq = (\<lambda>x y. x = y)\<rparr>"

text \<open>
  A rounding arithmetic small enough to compute with by hand: decimal fixed point with
  three places, every result rounded to the nearest multiple of one thousandth.
\<close>

definition round3 :: "real \<Rightarrow> real" where
  "round3 x = real_of_int \<lfloor>1000 * x + 1 / 2\<rfloor> / 1000"

definition fixed3 :: "real float_arith" where
  "fixed3 = \<lparr>lit = round3, float_of_int = (\<lambda>n. Inr (real_of_int n)),
             fadd = (\<lambda>x y. round3 (x + y)), fsub = (\<lambda>x y. round3 (x - y)),
             fmul = (\<lambda>x y. round3 (x * y)), fdiv = (\<lambda>x y. round3 (x / y)),
             fpow = (\<lambda>x y. Inr (round3 (x ^ nat \<lfloor>y\<rfloor>))), fsqrt = (\<lambda>x. round3 (sqrt x)),
             fceil = (\<lambda>x. real_of_int \<lceil>x\<rceil>), ffloor = (\<lambda>x. real_of_int \<lfloor>x\<rfloor>),
             to_int = (\<lambda>x. Inr (int_of_float x)),
             flt = (\<lambda>x y. x < y), feq = (\<lambda>x y. x = y)\<rparr>"

subsection \<open>Parameter estimation\<close>

text \<open>
  \<^verbatim>\<open>calculateProbHBMM(GC)\<close>. The argument is a Python number; the range check compares
  its value. The divisions and the powers are evaluated from left to right, each with
  the exception it can raise.
\<close>

definition calculateProbHBMM :: "'f float_arith \<Rightarrow> real \<Rightarrow> error + 'f" where
  "calculateProbHBMM ar GC =
     (if GC < 0 \<or> GC > 1 then Inl (RuntimeError ''The GC-content is out of range.'')
      else
        let g = lit ar GC; one = lit ar 1; two = lit ar 2 in
        bind (py_div ar g (fadd ar g one)) (\<lambda>d1.
        bind (fpow ar d1 two) (\<lambda>p1.
        bind (py_div ar (fsub ar one g) (fadd ar g one)) (\<lambda>d2.
        bind (fpow ar d2 two) (\<lambda>p2.
        bind (py_div ar (fsub ar one g) (fsub ar two g)) (\<lambda>d3.
        bind (fpow ar d3 two) (\<lambda>p3.
        bind (py_div ar g (fsub ar two g)) (\<lambda>d4.
        bind (fpow ar d4 two) (\<lambda>p4.
        Inr (fadd ar (fmul ar (fadd ar (fmul ar two p1) p2) (fsub ar one g))
                     (fmul ar (fadd ar (fmul ar two p3) p4) g)))))))))))"

text \<open>\<^verbatim>\<open>calculateProbHBM(mutationRate, GC)\<close>.\<close>

definition calculateProbHBM :: "'f float_arith \<Rightarrow> real \<Rightarrow> real \<Rightarrow> error + 'f" where
  "calculateProbHBM ar mutationRate GC =
     (if mutationRate < 0 \<or> mutationRate > 1 then
        Inl (RuntimeError ''The mutationRate is out of range.'')
      else if GC < 0 \<or> GC > 1 then Inl (RuntimeError ''The GC-content is out of range.'')
      else
        let M = lit ar mutationRate; one = lit ar 1 in
        bind (calculateProbHBMM ar GC) (\<lambda>probHBMM.
        Inr (fadd ar (fmul ar (fsub ar one M) (fsub ar one M))
                     (fmul ar (fmul ar M M) probHBMM))))"

text \<open>
  \<^verbatim>\<open>calculateProbHKM(mutationRate, GC, kmerSize)\<close>. The k-mer size is an integer, which
  \<^verbatim>\<open>math.pow\<close> converts to a float.
\<close>

definition calculateProbHKM :: "'f float_arith \<Rightarrow> real \<Rightarrow> real \<Rightarrow> int \<Rightarrow> error + 'f" where
  "calculateProbHKM ar mutationRate GC kmerSize =
     (if mutationRate < 0 \<or> mutationRate > 1 then
        Inl (RuntimeError ''The mutationRate is out of range.'')
      else if GC < 0 \<or> GC > 1 then Inl (RuntimeError ''The GC-content is out of range.'')
      else if kmerSize < 1 then Inl (RuntimeError ''The k-mer size is out of range.'')
      else
        bind (calculateProbHBM ar mutationRate GC) (\<lambda>probHBM.
        bind (float_of_int ar kmerSize) (\<lambda>k.
        fpow ar probHBM k)))"

text \<open>\<^verbatim>\<open>estimateSignatureSize(kmerSize)\<close>: no check, no \<^verbatim>\<open>raise\<close> of its own.\<close>

definition estimateSignatureSize :: "'f float_arith \<Rightarrow> int \<Rightarrow> error + int" where
  "estimateSignatureSize ar kmerSize =
     (let FACTOR = lit ar 4 in
      bind (float_of_int ar kmerSize) (\<lambda>k.
      let estimate = fmul ar FACTOR k
      in to_int ar estimate))"

text \<open>
  \<^verbatim>\<open>estimateGapSize(mutationRate, GC, kmerSize, confidence)\<close>, in three parts. The first
  part, \<open>gap_moments\<close>, is the statements from \<^verbatim>\<open>p = calculateProbHBM(mutationRate, GC)\<close>
  to the assignment of \<^verbatim>\<open>variance\<close>; it gives the values of the local variables
  \<^verbatim>\<open>mean\<close> and \<^verbatim>\<open>variance\<close>. The power \<^verbatim>\<open>math.pow(p, k)\<close>, which the source writes four
  times, is computed once: it is a function of its arguments.
\<close>

definition gap_moments :: "'f float_arith \<Rightarrow> real \<Rightarrow> real \<Rightarrow> int \<Rightarrow> error + 'f \<times> 'f" where
  "gap_moments ar mutationRate GC kmerSize =
     (let one = lit ar 1; two = lit ar 2 in
      bind (calculateProbHBM ar mutationRate GC) (\<lambda>p.
      let q = fsub ar one p in
      bind (float_of_int ar kmerSize) (\<lambda>k.
      bind (fpow ar p k) (\<lambda>pk.
      bind (py_div ar (fsub ar one pk) (fmul ar q pk)) (\<lambda>mean.
      bind (fpow ar (fmul ar q pk) two) (\<lambda>d2.
      bind (py_div ar one d2) (\<lambda>t1.
      bind (py_div ar (fadd ar (fmul ar two k) one) (fmul ar q pk)) (\<lambda>t2.
      bind (fpow ar q two) (\<lambda>q2.
      bind (py_div ar p q2) (\<lambda>t3.
      let variance = fsub ar (fsub ar t1 t2) t3
      in Inr (mean, variance)))))))))))"

text \<open>
  The second part, \<open>gap_estimate\<close>, is the statements from
  \<^verbatim>\<open>stdev = math.sqrt(variance)\<close> to the \<^verbatim>\<open>return\<close>.
\<close>

definition gap_estimate :: "'f float_arith \<Rightarrow> 'f \<Rightarrow> 'f \<Rightarrow> real \<Rightarrow> error + int" where
  "gap_estimate ar mean variance confidence =
     (let c = lit ar confidence; one = lit ar 1 in
      bind (py_sqrt ar variance) (\<lambda>stdev.
      bind (py_div ar one (fsub ar one c)) (\<lambda>r.
      bind (py_sqrt ar r) (\<lambda>deviations.
      let estimate = fceil ar (fadd ar mean (fmul ar deviations stdev))
      in to_int ar estimate))))"

text \<open>The function: the four range checks, then the two parts.\<close>

definition estimateGapSize :: "'f float_arith \<Rightarrow> real \<Rightarrow> real \<Rightarrow> int \<Rightarrow> real \<Rightarrow> error + int" where
  "estimateGapSize ar mutationRate GC kmerSize confidence =
     (if mutationRate < 0 \<or> mutationRate > 1 then
        Inl (RuntimeError ''The mutationRate is out of range.'')
      else if GC < 0 \<or> GC > 1 then Inl (RuntimeError ''The GC-content is out of range.'')
      else if kmerSize < 1 then Inl (RuntimeError ''The k-mer size is out of range.'')
      else if confidence \<le> 0 \<or> confidence \<ge> 1 then
        Inl (RuntimeError ''The statistical confidence is out of range.'')
      else
        bind (gap_moments ar mutationRate GC kmerSize) (\<lambda>(mean, variance).
        gap_estimate ar mean variance confidence))"

text \<open>\<^verbatim>\<open>estimateExclusionHits(totalExclusion, rate, kmerSize)\<close>: the constant \<^verbatim>\<open>1.0\<close>.\<close>

definition estimateExclusionHits :: "int \<Rightarrow> real \<Rightarrow> int \<Rightarrow> error + real" where
  "estimateExclusionHits totalExclusion rate kmerSize = (let estimate = 1 in Inr estimate)"

text \<open>
  \<^verbatim>\<open>estimateInclusionHits(totalInclusion, mutationRate, GC, kmerSize, confidence)\<close>.
  The percent point function \<^verbatim>\<open>norm.ppf\<close> of the standard normal distribution comes from
  SciPy; it is the parameter \<open>ppf\<close>.
\<close>

definition estimateInclusionHits ::
  "'f float_arith \<Rightarrow> (real \<Rightarrow> 'f) \<Rightarrow> int \<Rightarrow> real \<Rightarrow> real \<Rightarrow> int \<Rightarrow> real \<Rightarrow> error + 'f" where
  "estimateInclusionHits ar ppf totalInclusion mutationRate GC kmerSize confidence =
     (if mutationRate < 0 \<or> mutationRate > 1 then
        Inl (RuntimeError ''The mutationRate is out of range.'')
      else if GC < 0 \<or> GC > 1 then Inl (RuntimeError ''The GC-content is out of range.'')
      else if kmerSize < 1 then Inl (RuntimeError ''The k-mer size is out of range.'')
      else if confidence \<le> 0 \<or> confidence \<ge> 1 then
        Inl (RuntimeError ''The statistical confidence is out of range.'')
      else
        let deviations = ppf confidence; one = lit ar 1 in
        bind (calculateProbHKM ar mutationRate GC kmerSize) (\<lambda>p.
        let q = fsub ar one p in
        bind (float_of_int ar totalInclusion) (\<lambda>N.
        let mean = fmul ar (fsub ar N one) p;
            variance = fmul ar (fmul ar (fsub ar N one) p) q
        in
        bind (py_sqrt ar variance) (\<lambda>stdev.
        let estimate = ffloor ar (fsub ar (fadd ar one mean) (fmul ar deviations stdev))
        in Inr (py_max0 ar estimate)))))"


definition feller_variance :: "'f float_arith \<Rightarrow> 'f \<Rightarrow> 'f \<Rightarrow> error + 'f" where
  "feller_variance ar p k =
     (let q = fsub ar (lit ar 1) p in
      bind (fpow ar p k) (\<lambda>pk.
      bind (fpow ar (fmul ar q pk) (lit ar 2)) (\<lambda>d2.
      bind (py_div ar (lit ar 1) d2) (\<lambda>t1.
      bind (py_div ar (fadd ar (fmul ar (lit ar 2) k) (lit ar 1)) (fmul ar q pk)) (\<lambda>t2.
      bind (fpow ar q (lit ar 2)) (\<lambda>q2.
      bind (py_div ar p q2) (\<lambda>t3.
      Inr (fsub ar (fsub ar t1 t2) t3))))))))"


text \<open>The documented domain of the estimators.\<close>

definition in_domain :: "real \<Rightarrow> real \<Rightarrow> int \<Rightarrow> real \<Rightarrow> bool" where
  "in_domain mutationRate GC kmerSize confidence =
     (0 \<le> mutationRate \<and> mutationRate \<le> 1 \<and> 0 \<le> GC \<and> GC \<le> 1 \<and> 1 \<le> kmerSize \<and>
      0 < confidence \<and> confidence < 1)"


subsection \<open>The k-mer tables\<close>

text \<open>\<^verbatim>\<open>line.split()\<close>: the maximal runs of characters that are not whitespace.\<close>

fun split_aux :: "string \<Rightarrow> string \<Rightarrow> string list" where
  "split_aux cur [] = (if cur = [] then [] else [rev cur])"
| "split_aux cur (c # cs) =
     (if is_space c then (if cur = [] then split_aux [] cs else rev cur # split_aux [] cs)
      else split_aux (c # cur) cs)"

definition py_split :: "string \<Rightarrow> string list" where
  "py_split s = split_aux [] s"

text \<open>\<^verbatim>\<open>tokens[i]\<close> for a list and an index that is not negative.\<close>

definition item :: "'a list \<Rightarrow> nat \<Rightarrow> error + 'a" where
  "item xs i = (if i < length xs then Inr (xs ! i) else Inl IndexError)"

text \<open>
  \<^verbatim>\<open>int(s)\<close> for a string: an optional sign and one or more decimal digits, the literals
  of the k-mer table; any other string raises \<^verbatim>\<open>ValueError\<close>.
\<close>

definition is_digit :: "char \<Rightarrow> bool" where
  "is_digit c = (48 \<le> (of_char c :: nat) \<and> (of_char c :: nat) \<le> 57)"

definition digit_value :: "char \<Rightarrow> int" where
  "digit_value c = int (of_char c :: nat) - 48"

definition decimal :: "string \<Rightarrow> error + int" where
  "decimal ds =
     (if ds \<noteq> [] \<and> list_all is_digit ds
      then Inr (foldl (\<lambda>n c. 10 * n + digit_value c) 0 ds)
      else Inl ValueError)"

definition py_int :: "string \<Rightarrow> error + int" where
  "py_int s =
     (case strip s of
        [] \<Rightarrow> Inl ValueError
      | c # cs \<Rightarrow>
          if c = CHR ''-'' then bind (decimal cs) (\<lambda>n. Inr (- n))
          else if c = CHR ''+'' then decimal cs
          else decimal (c # cs))"

text \<open>
  The first half of the loop body of \<^verbatim>\<open>buildKMers\<close>: the k-mer and the two counts of
  one line.
\<close>

definition kmer_line :: "string \<Rightarrow> error + (string \<times> int \<times> int)" where
  "kmer_line line =
     (let tokens = py_split line in
      bind (item tokens 0) (\<lambda>t0.
      let kmer = strip t0 in
      bind (item tokens 1) (\<lambda>t1.
      bind (py_int (strip t1)) (\<lambda>incount.
      bind (item tokens 2) (\<lambda>t2.
      bind (py_int (strip t2)) (\<lambda>excount.
      Inr (kmer, incount, excount)))))))"

text \<open>
  \<^verbatim>\<open>buildKMers(kmerFile, inmers, exmers, inhits, exhits)\<close>. The file is the list of its
  lines; the two dictionaries are passed in and returned filled. The thresholds are
  integers or floats in the source and reals here.
\<close>

fun buildKMers ::
  "string list \<Rightarrow> int dict \<Rightarrow> int dict \<Rightarrow> real \<Rightarrow> real \<Rightarrow> error + (int dict \<times> int dict)" where
  "buildKMers [] inmers exmers inhits exhits = Inr (inmers, exmers)"
| "buildKMers (line # kmerFile) inmers exmers inhits exhits =
     (case kmer_line line of
        Inl e \<Rightarrow> Inl e
      | Inr (kmer, incount, excount) \<Rightarrow>
          let inmers1 = (if real_of_int incount \<ge> inhits
                         then AList.update kmer incount inmers else inmers);
              exmers1 = (if real_of_int excount \<ge> exhits
                         then AList.update kmer excount exmers else exmers)
          in buildKMers kmerFile inmers1 exmers1 inhits exhits)"

section \<open>Properties of the scanner\<close>

subsection \<open>Slices and whitespace\<close>

lemma length_py_slice:
  assumes "0 \<le> a" "a \<le> b" "b \<le> int (length s)"
  shows "length (py_slice s a b) = nat (b - a)"
  using assms by (auto simp: py_slice_def slice_bound_def Let_def min_def)

lemma length_strip: "length (strip s) \<le> length s"
proof -
  have "length (strip s) \<le> length (rev (dropWhile is_space s))"
    unfolding strip_def length_rev[of "dropWhile is_space (rev (dropWhile is_space s))"]
    by (rule length_dropWhile_le)
  also have "\<dots> = length (dropWhile is_space s)" by simp
  also have "\<dots> \<le> length s" by (rule length_dropWhile_le)
  finally show ?thesis .
qed

lemma emitted_region_ok:
  assumes "(key, ref) \<in> set refs" "0 \<le> start" "fin \<le> int (length ref)"
    and "size' \<le> fin - start" "1 \<le> size'"
  shows "region_ok refs size' \<lparr>sequence = py_slice ref start fin, reference = key, position = start\<rparr>"
proof -
  have len: "length (py_slice ref start fin) = nat (fin - start)"
    using assms by (intro length_py_slice) auto
  show ?thesis
    unfolding region_ok_def using assms len by (intro exI[of _ ref]) auto
qed

lemma close_chain_ok:
  assumes "(key, ref) \<in> set refs" "1 \<le> size'" "j \<le> int (length ref)"
    and "chain_ok j (start, fin, rs0)" "\<forall>r\<in>set regions. region_ok refs size' r"
  shows "\<forall>r\<in>set (close_chain ref key size' start fin regions). region_ok refs size' r"
proof (cases "size' \<le> fin - start")
  case True
  with assms have "0 \<le> start" "fin \<le> int (length ref)"
    by (auto simp: chain_ok_def)
  with True assms emitted_region_ok[of key ref refs start fin size']
  show ?thesis by (auto simp: close_chain_def)
next
  case False
  with assms show ?thesis by (simp add: close_chain_def)
qed

lemma window_inv:
  assumes "(key, ref) \<in> set refs" "1 \<le> k" "1 \<le> size'" "0 \<le> i" "i + k \<le> int (length ref)"
    and ok: "chain_ok i (start, fin, regions)"
    and rs: "\<forall>r\<in>set regions. region_ok refs size' r"
    and w: "window rc ref key k inmers exmers size' gap (start, fin, regions) i = (start', fin', regions')"
  shows "chain_ok (i + 1) (start', fin', regions') \<and> (\<forall>r\<in>set regions'. region_ok refs size' r)"
proof -
  have le: "i \<le> int (length ref)" "i + 1 \<le> int (length ref)" using assms by auto
  have c0: "\<forall>r\<in>set (close_chain ref key size' start fin regions). region_ok refs size' r"
    using close_chain_ok[OF assms(1) assms(3) le(1) ok rs] .
  have c1: "\<forall>r\<in>set (close_chain ref key size' (i + k - 1) (i + 1) regions). region_ok refs size' r"
    using close_chain_ok[OF assms(1) assms(3) le(2) _ rs, of "i + k - 1" "i + 1" "[]"] assms
    by (simp add: chain_ok_def)
  show ?thesis
    using w ok rs c0 c1 assms(2,4)
    by (auto simp: Let_def chain_ok_def split: if_splits)
qed

lemma scan_inv:
  assumes "(key, ref) \<in> set refs" "1 \<le> k" "1 \<le> size'"
    and "m = 0 \<or> int m + k \<le> int (length ref) + 1"
    and "\<forall>r\<in>set regions. region_ok refs size' r"
    and "foldl (window rc ref key k inmers exmers size' gap) (- 1, - 1, regions)
           (map int [0 ..< m]) = (start, fin, regions')"
  shows "chain_ok (int m) (start, fin, regions') \<and> (\<forall>r\<in>set regions'. region_ok refs size' r)"
  using assms(4,6)
proof (induction m arbitrary: start fin regions')
  case 0
  with assms(5) show ?case by (auto simp: chain_ok_def)
next
  case (Suc m)
  obtain s0 f0 r0 where st: "foldl (window rc ref key k inmers exmers size' gap)
      (- 1, - 1, regions) (map int [0 ..< m]) = (s0, f0, r0)"
    by (metis prod_cases3)
  from Suc.prems(1) have bound: "m = 0 \<or> int m + k \<le> int (length ref) + 1"
    "int m + k \<le> int (length ref)"
    by auto
  from Suc.IH[OF bound(1) st]
  have ih: "chain_ok (int m) (s0, f0, r0)" "\<forall>r\<in>set r0. region_ok refs size' r" by auto
  from Suc.prems(2) st
  have w: "window rc ref key k inmers exmers size' gap (s0, f0, r0) (int m) = (start, fin, regions')"
    by simp
  from window_inv[OF assms(1-3) _ bound(2) ih w] show ?case
    by (simp add: add.commute)
qed

lemma scan_reference_ok:
  assumes "(key, ref) \<in> set refs" "1 \<le> k" "1 \<le> size'"
    and "\<forall>r\<in>set regions. region_ok refs size' r"
  shows "\<forall>r\<in>set (scan_reference rc k inmers exmers size' gap regions (key, ref)).
           region_ok refs size' r"
proof -
  define m where "m = nat (int (length (strip ref)) - k + 1)"
  obtain start fin regions' where st:
    "foldl (window rc ref key k inmers exmers size' gap) (- 1, - 1, regions)
       (map int [0 ..< m]) = (start, fin, regions')"
    by (metis prod_cases3)
  have bound: "m = 0 \<or> int m + k \<le> int (length ref) + 1" "int m \<le> int (length ref)"
    using length_strip[of ref] assms(2) by (auto simp: m_def)
  from scan_inv[OF assms(1-3) bound(1) assms(4) st]
  have inv: "chain_ok (int m) (start, fin, regions')" "\<forall>r\<in>set regions'. region_ok refs size' r"
    by auto
  have "region_ok refs size'
          \<lparr>sequence = py_slice ref start fin, reference = key, position = start\<rparr>"
    if "0 \<le> start" "size' \<le> fin - start"
    using that inv(1) bound(2) assms(1,3)
    by (intro emitted_region_ok) (auto simp: chain_ok_def)
  with inv(2) st show ?thesis
    by (auto simp: py_range_def m_def)
qed

lemma scan_references_ok:
  assumes "1 \<le> k" "1 \<le> size'"
  shows "set items \<subseteq> set refs \<Longrightarrow> \<forall>r\<in>set regions. region_ok refs size' r \<Longrightarrow>
         \<forall>r\<in>set (foldl (scan_reference rc k inmers exmers size' gap) regions items).
            region_ok refs size' r"
proof (induction items arbitrary: regions)
  case Nil
  then show ?case by simp
next
  case (Cons item items)
  obtain key ref where item: "item = (key, ref)" by (cases item)
  with Cons.prems(1) have mem: "(key, ref) \<in> set refs" by simp
  have "\<forall>r\<in>set (scan_reference rc k inmers exmers size' gap regions item). region_ok refs size' r"
    unfolding item using scan_reference_ok[OF mem assms Cons.prems(2)] .
  with Cons show ?case by simp
qed

lemma writeSignatures_region:
  assumes "s \<in> set (writeSignatures regions)"
  shows "\<exists>r\<in>set regions. sig_sequence s = sequence r \<and> sig_reference s = reference r \<and>
           sig_position s = position r"
  using assms by (auto simp: writeSignatures_def)

lemma extract_signatures_ok:
  assumes "extract_signatures rc references k inmers exmers size' gap outputFile = Inr sigs"
    and "s \<in> set sigs"
  shows "\<exists>r. region_ok (contents references) size' r \<and> sig_sequence s = sequence r \<and>
           sig_reference s = reference r \<and> sig_position s = position r"
proof -
  from assms(1) have pre: "1 \<le> k" "1 \<le> size'"
    and sigs: "sigs = writeSignatures
       (foldl (scan_reference rc k (contents inmers) (contents exmers) size' gap) []
          (contents references))"
    by (auto simp: extract_signatures_def split: if_splits)
  from scan_references_ok[OF pre, of "contents references" "contents references" "[]"]
  have "\<forall>r\<in>set (foldl (scan_reference rc k (contents inmers) (contents exmers) size' gap) []
          (contents references)). region_ok (contents references) size' r"
    by simp
  with writeSignatures_region[of s] assms(2) sigs show ?thesis by blast
qed

subsection \<open>The scenario of the specification\<close>

lemma scenario_scan:
  "foldl (window reverseComplement ''AAAAACCCCC'' ''ref'' 5 [(''AAAAA'', 1::int)]
            ([] :: int dict) 1 1) (- 1, - 1, []) (py_range 6) = (4, 1, [])"
  by (simp add: py_range_def upt_rec py_slice_def slice_bound_def has_key_def
      reverseComplement_def close_chain_def)

lemma scenario_result:
  "extract_signatures reverseComplement (Some [(''ref'', ''AAAAACCCCC'')]) 5
     (Some [(''AAAAA'', 1::int)]) (Some ([] :: int dict)) 1 1 (Some ()) = Inr []"
  by (simp add: extract_signatures_def none_or_empty_def contents_def strip_def is_space_def
      py_range_def upt_rec py_slice_def slice_bound_def has_key_def reverseComplement_def
      close_chain_def writeSignatures_def)

text \<open>
  C1, as the code behaves. On the reference collection \<open>{ref: AAAAACCCCC}\<close> with \<open>k = 5\<close>,
  inclusion set \<open>{AAAAA}\<close>, empty exclusion set, maximum gap 1 and minimum size 1, the
  scan writes no signature: the only matching window, at position 0, opens a chain with
  \<open>start = 0 + 5 - 1 = 4\<close> and \<open>end = 0 + 1 = 1\<close>, no later window matches, and the span
  \<open>1 - 4\<close> of the chain is below the minimum size when the sequence ends.
\<close>

theorem extract_scenario_no_region:
  "extract_signatures reverseComplement (Some [(''ref'', ''AAAAACCCCC'')]) 5
     (Some [(''AAAAA'', 1::int)]) (Some ([] :: int dict)) 1 1 (Some ()) = Inr [] \<and>
   foldl (window reverseComplement ''AAAAACCCCC'' ''ref'' 5 [(''AAAAA'', 1::int)]
            ([] :: int dict) 1 1) (- 1, - 1, []) (py_range 6) = (4, 1, [])"
  using scenario_result scenario_scan by simp

text \<open>
  C1, as the specification states it, fails: the run does not write exactly one
  candidate.
\<close>

theorem extract_scenario_not_one_region:
  "\<not> (\<exists>sigs. extract_signatures reverseComplement (Some [(''ref'', ''AAAAACCCCC'')]) 5
          (Some [(''AAAAA'', 1::int)]) (Some ([] :: int dict)) 1 1 (Some ()) = Inr sigs \<and>
        length sigs = 1)"
  using scenario_result by simp

subsection \<open>Emitted regions\<close>

text \<open>
  A run whose arguments pass the seven checks returns: the two loops are bounded by the
  references and by their lengths.
\<close>

lemma extract_signatures_returns:
  assumes "refs \<noteq> []" "1 \<le> k" "inmers \<noteq> []" "1 \<le> size'" "1 \<le> gap"
  shows "\<exists>sigs. extract_signatures rc (Some refs) k (Some inmers) (Some exmers) size' gap
           (Some out) = Inr sigs"
  using assms by (simp add: extract_signatures_def none_or_empty_def not_less)

text \<open>
  C2. Every signature that a run of \<open>extract\<close> writes has a sequence of at least the
  minimum size, whichever of the three places of the loop closed its chain. The length
  of the sequence is the span \<open>end - start\<close> of the chain, since the scan keeps
  \<open>0 \<le> start\<close> and \<open>end \<le> len(ref)\<close> while a chain is open.
\<close>

theorem extract_min_size:
  assumes "extract_signatures rc references k inmers exmers size' gap outputFile = Inr sigs"
  shows "\<forall>s\<in>set sigs. size' \<le> int (length (sig_sequence s))"
proof
  fix s assume "s \<in> set sigs"
  from extract_signatures_ok[OF assms this] show "size' \<le> int (length (sig_sequence s))"
    by (auto simp: region_ok_def)
qed

lemma example_run:
  "extract_signatures reverseComplement (Some [(''ref'', ''AAAAACCCCC'')]) 1
     (Some [(''A'', 1::int)]) (Some [(''C'', 1::int)]) 2 1 (Some ()) =
   Inr [\<lparr>sig_id = 0, sig_score = 0, sig_inscore = 0, sig_exscore = 0,
         sig_sequence = ''AAAAA'', sig_reference = ''ref'', sig_position = 0\<rparr>]"
  by (simp add: extract_signatures_def none_or_empty_def contents_def strip_def is_space_def
      py_range_def upt_rec py_slice_def slice_bound_def has_key_def reverseComplement_def
      close_chain_def writeSignatures_def)

theorem extract_min_size_witness:
  "extract_signatures reverseComplement (Some [(''ref'', ''AAAAACCCCC'')]) 1
     (Some [(''A'', 1::int)]) (Some [(''C'', 1::int)]) 2 1 (Some ()) =
   Inr [\<lparr>sig_id = 0, sig_score = 0, sig_inscore = 0, sig_exscore = 0,
         sig_sequence = ''AAAAA'', sig_reference = ''ref'', sig_position = 0\<rparr>] \<and>
   2 \<le> int (length (sig_sequence
         \<lparr>sig_id = 0, sig_score = 0, sig_inscore = 0, sig_exscore = 0,
          sig_sequence = ''AAAAA'', sig_reference = ''ref'', sig_position = 0\<rparr>))"
  using extract_min_size[OF example_run] example_run by simp

text \<open>
  C3. At a window whose k-mer or reverse complement is an exclusion k-mer, whatever the
  inclusion dictionary holds, the step leaves no chain open: both variables are reset to
  \<open>-1\<close>, and the chain that was open is written as a region exactly when its span
  reaches the minimum size.
\<close>

theorem window_exclusion_resets:
  assumes "has_key exmers (py_slice ref i (i + k)) \<or>
           has_key exmers (rc (py_slice ref i (i + k)))"
  shows "window rc ref key k inmers exmers size' gap (start, fin, regions) i =
           (- 1, - 1,
            if size' \<le> fin - start
            then regions @ [\<lparr>sequence = py_slice ref start fin, reference = key,
                              position = start\<rparr>]
            else regions)"
  using assms by (auto simp: Let_def close_chain_def)

theorem window_exclusion_resets_witness:
  "(has_key [(''A'', 1::int)] (py_slice ''AAC'' 1 (1 + 1)) \<or>
    has_key [(''A'', 1::int)] (reverseComplement (py_slice ''AAC'' 1 (1 + 1)))) \<and>
   has_key [(''A'', 7::int)] (py_slice ''AAC'' 1 (1 + 1)) \<and>
   window reverseComplement ''AAC'' ''ref'' 1 [(''A'', 7::int)] [(''A'', 1::int)] 1 1
     (0, 1, []) 1 =
   (- 1, - 1, [\<lparr>sequence = ''A'', reference = ''ref'', position = 0\<rparr>])"
proof -
  have h: "has_key [(''A'', 1::int)] (py_slice ''AAC'' 1 (1 + 1)) \<or>
    has_key [(''A'', 1::int)] (reverseComplement (py_slice ''AAC'' 1 (1 + 1)))"
    by (simp add: has_key_def py_slice_def slice_bound_def)
  from window_exclusion_resets[of "[(''A'', 1::int)]" "''AAC''" 1 1 reverseComplement
      "''ref''" "[(''A'', 7::int)]" 1 1 0 1 "[]", OF h] h
  show ?thesis
    by (simp add: has_key_def py_slice_def slice_bound_def)
qed

text \<open>
  C10. Every signature that a run of \<open>extract\<close> writes is consistent with the reference
  it names: its sequence is the slice of that reference that starts at its position and
  has the length of the sequence. The references are a dictionary, so their keys are
  distinct.
\<close>

theorem extract_region_consistent:
  assumes "extract_signatures rc references k inmers exmers size' gap outputFile = Inr sigs"
    and "distinct (map fst (contents references))"
    and "s \<in> set sigs"
  shows "\<exists>ref. map_of (contents references) (sig_reference s) = Some ref \<and>
           sig_sequence s =
             py_slice ref (sig_position s) (sig_position s + int (length (sig_sequence s)))"
proof -
  from extract_signatures_ok[OF assms(1,3)] obtain r where r:
    "region_ok (contents references) size' r"
    "sig_sequence s = sequence r" "sig_reference s = reference r" "sig_position s = position r"
    by blast
  from r(1) obtain ref where ref:
    "(reference r, ref) \<in> set (contents references)"
    "sequence r = py_slice ref (position r) (position r + int (length (sequence r)))"
    unfolding region_ok_def by blast
  from ref(1) assms(2) have "map_of (contents references) (reference r) = Some ref"
    by simp
  with ref(2) r(2-4) show ?thesis by simp
qed

lemma example_run_two:
  "extract_signatures reverseComplement (Some [(''r1'', ''GGAAAC''), (''r2'', ''TTTG'')]) 1
     (Some [(''A'', 1::int)]) (Some [(''C'', 1::int)]) 2 1 (Some ()) =
   Inr [\<lparr>sig_id = 0, sig_score = 0, sig_inscore = 0, sig_exscore = 0,
         sig_sequence = ''AAA'', sig_reference = ''r1'', sig_position = 2\<rparr>,
        \<lparr>sig_id = 1, sig_score = 0, sig_inscore = 0, sig_exscore = 0,
         sig_sequence = ''TTT'', sig_reference = ''r2'', sig_position = 0\<rparr>]"
  by (simp add: extract_signatures_def none_or_empty_def contents_def strip_def is_space_def
      py_range_def upt_rec py_slice_def slice_bound_def has_key_def reverseComplement_def
      close_chain_def writeSignatures_def)

theorem extract_region_consistent_witness:
  "\<exists>ref. map_of [(''r1'', ''GGAAAC''), (''r2'', ''TTTG'')] ''r2'' = Some ref \<and>
         ''TTT'' = py_slice ref 0 (0 + int (length ''TTT''))"
proof -
  have d: "distinct (map fst (contents (Some [(''r1'', ''GGAAAC''), (''r2'', ''TTTG'')])))"
    by (simp add: contents_def)
  from extract_region_consistent[OF example_run_two d, of
      "\<lparr>sig_id = 1, sig_score = 0, sig_inscore = 0, sig_exscore = 0,
         sig_sequence = ''TTT'', sig_reference = ''r2'', sig_position = 0\<rparr>"]
  show ?thesis by (simp add: contents_def py_slice_def slice_bound_def)
qed

section \<open>Properties of the parameter estimation\<close>

subsection \<open>The match probabilities in the arithmetic of the reals\<close>

lemmas exact_simps = exact_def py_div_def py_sqrt_def py_max0_def bind_def Let_def






subsection \<open>The gap estimate\<close>







lemma estimateGapSize_zero_rate:
  "estimateGapSize exact 0 (1 / 2) 5 (19 / 20) = Inl ZeroDivisionError"
  by (simp add: estimateGapSize_def gap_moments_def calculateProbHBM_def calculateProbHBMM_def
      exact_simps)

subsection \<open>A negative variance\<close>

lemma gap_estimate_negative:
  assumes "flt ar variance (lit ar 0)"
  shows "gap_estimate ar mean variance confidence = Inl ValueError"
  using assms by (simp add: gap_estimate_def py_sqrt_def bind_def Let_def)

lemma gap_estimate_negative_example: "gap_estimate exact 5 (- 1 / 2) (19 / 20) = Inl ValueError"
  by (rule gap_estimate_negative) (simp add: exact_def)

text \<open>
  C8. In every float arithmetic and for every in-domain input: when the variance that
  \<open>estimateGapSize\<close> computes is negative, the function raises \<^verbatim>\<open>ValueError\<close>, the
  error of the square root. It returns no estimate, and the variance is not replaced
  by zero or by any other value.
\<close>

theorem estimateGapSize_negative_variance:
  assumes "in_domain mutationRate GC kmerSize confidence"
    and "gap_moments ar mutationRate GC kmerSize = Inr (mean, variance)"
    and "flt ar variance (lit ar 0)"
  shows "estimateGapSize ar mutationRate GC kmerSize confidence = Inl ValueError"
proof -
  from assms(1) have dom: "\<not> (mutationRate < 0 \<or> mutationRate > 1)" "\<not> (GC < 0 \<or> GC > 1)"
    "\<not> kmerSize < 1" "\<not> (confidence \<le> 0 \<or> confidence \<ge> 1)"
    by (auto simp: in_domain_def)
  show ?thesis
    unfolding estimateGapSize_def assms(2)
    using dom gap_estimate_negative[OF assms(3)] by (simp add: bind_def)
qed

lemmas fixed3_simps = fixed3_def round3_def py_div_def py_sqrt_def py_max0_def bind_def Let_def

lemma gap_moments_fixed3:
  "gap_moments fixed3 (113 / 1000) 0 1 = Inr (5 / 4, - 36 / 125)"
  by (simp add: gap_moments_def calculateProbHBM_def calculateProbHBMM_def fixed3_simps
      power2_eq_square)

text \<open>
  In the arithmetic with three decimal places, a mutation rate of 0.113, a GC-content of
  0 and a k-mer size of 1 give \<open>p = 0.8\<close>, the rounded square \<open>0.026\<close> of \<open>q * p = 0.16\<close>,
  and the variance \<open>38.462 - 18.75 - 20 = -0.288\<close>.
\<close>

theorem estimateGapSize_negative_variance_witness:
  "in_domain (113 / 1000) 0 1 (19 / 20) \<and>
   gap_moments fixed3 (113 / 1000) 0 1 = Inr (5 / 4, - 36 / 125) \<and>
   flt fixed3 (- 36 / 125) (lit fixed3 0) \<and>
   estimateGapSize fixed3 (113 / 1000) 0 1 (19 / 20) = Inl ValueError"
proof -
  have h1: "in_domain (113 / 1000) 0 1 (19 / 20)" by (simp add: in_domain_def)
  have h3: "flt fixed3 (- 36 / 125) (lit fixed3 0)" by (simp add: fixed3_def round3_def)
  from estimateGapSize_negative_variance[OF h1 gap_moments_fixed3 h3] h1 gap_moments_fixed3 h3
  show ?thesis by simp
qed

text \<open>
  In the arithmetic of the reals the variance is never negative where it has a value:
  multiplied by the square of its divisor it is \<open>(1 - p)\<close> times the difference between
  the geometric sum of \<open>2 * k + 1\<close> terms and \<open>2 * k + 1\<close> times its middle term. A
  negative variance is an effect of rounding.
\<close>

lemma geometric_sum_ge:
  fixes p :: real
  assumes "0 \<le> p"
  shows "(2 * real k + 1) * p ^ k \<le> (\<Sum>i<2 * k + 1. p ^ i)"
proof (induction k)
  case 0
  show ?case by simp
next
  case (Suc k)
  have split: "(\<Sum>i<2 * Suc k + 1. p ^ i) = 1 + p * (\<Sum>i<2 * k + 1. p ^ i) + p ^ (2 * k + 2)"
  proof -
    have "(\<Sum>i<2 * Suc k + 1. p ^ i) = (\<Sum>i<Suc (2 * k + 1). p ^ i) + p ^ (2 * k + 2)"
      by simp
    also have "(\<Sum>i<Suc (2 * k + 1). p ^ i) = p ^ 0 + (\<Sum>i<2 * k + 1. p ^ Suc i)"
      by (rule sum.lessThan_Suc_shift)
    also have "(\<Sum>i<2 * k + 1. p ^ Suc i) = p * (\<Sum>i<2 * k + 1. p ^ i)"
      by (simp only: power_Suc sum_distrib_left)
    finally show ?thesis by simp
  qed
  have "p * ((2 * real k + 1) * p ^ k) \<le> p * (\<Sum>i<2 * k + 1. p ^ i)"
    using Suc assms by (intro mult_left_mono) auto
  then have a: "(2 * real k + 1) * p ^ Suc k \<le> p * (\<Sum>i<2 * k + 1. p ^ i)"
    by (simp add: mult_ac)
  have "(p ^ Suc k)\<^sup>2 = p ^ (Suc k * 2)"
    by (rule power_mult[symmetric])
  moreover have "Suc k * 2 = 2 * k + 2" by simp
  ultimately have sq: "(p ^ Suc k)\<^sup>2 = p ^ (2 * k + 2)" by (simp only:)
  have "0 \<le> (1 - p ^ Suc k)\<^sup>2" by simp
  also have "\<dots> = 1 - 2 * p ^ Suc k + (p ^ Suc k)\<^sup>2"
    by (simp add: power2_diff)
  finally have b: "2 * p ^ Suc k \<le> 1 + p ^ (2 * k + 2)"
    unfolding sq by simp
  have "(2 * real (Suc k) + 1) * p ^ Suc k = (2 * real k + 1) * p ^ Suc k + 2 * p ^ Suc k"
    by (simp add: algebra_simps)
  also have "\<dots> \<le> p * (\<Sum>i<2 * k + 1. p ^ i) + (1 + p ^ (2 * k + 2))"
    using a b by (rule add_mono)
  finally show ?case unfolding split by simp
qed

lemma variance_times_divisor:
  fixes q P c p :: real
  assumes "q \<noteq> 0" "P \<noteq> 0"
  shows "(1 / (q * P)\<^sup>2 - c / (q * P) - p / q\<^sup>2) * (q * P)\<^sup>2 = 1 - c * (q * P) - p * P\<^sup>2"
proof -
  have a: "1 / (q * P)\<^sup>2 * (q * P)\<^sup>2 = 1" using assms by simp
  have b: "c / (q * P) * (q * P)\<^sup>2 = c * (q * P)"
    using assms by (simp add: power2_eq_square)
  have e: "p / q\<^sup>2 * (q * P)\<^sup>2 = p * P\<^sup>2"
    using assms by (simp add: power_mult_distrib)
  show ?thesis unfolding left_diff_distrib a b e ..
qed

lemma feller_variance_exact_nonneg:
  assumes "0 \<le> p" "p \<le> 1" "feller_variance exact p (real k) = Inr v"
  shows "0 \<le> v"
proof -
  let ?d = "(1 - p) * p ^ k"
  from assms(3) have d: "?d \<noteq> 0"
    and v: "v = 1 / ?d\<^sup>2 - (2 * real k + 1) / ?d - p / (1 - p)\<^sup>2"
    by (auto simp: feller_variance_def exact_simps split: if_splits)
  from d have q: "1 - p \<noteq> 0" and pk: "p ^ k \<noteq> 0" by auto
  have "v * ?d\<^sup>2 = 1 - (2 * real k + 1) * ?d - p * (p ^ k)\<^sup>2"
    unfolding v using variance_times_divisor[OF q pk] .
  also have "p * (p ^ k)\<^sup>2 = p ^ (2 * k + 1)"
    by (simp add: power_mult power2_eq_square mult_ac flip: power_add)
  also have "1 - (2 * real k + 1) * ?d - p ^ (2 * k + 1) =
      (1 - p) * ((\<Sum>i<2 * k + 1. p ^ i) - (2 * real k + 1) * p ^ k)"
    using one_diff_power_eq[of p "2 * k + 1"] by (simp add: algebra_simps)
  also have "\<dots> \<ge> 0"
    using geometric_sum_ge[OF assms(1), of k] assms(2) by (intro mult_nonneg_nonneg) auto
  finally have "0 \<le> v * ?d\<^sup>2" .
  moreover have "0 < ?d\<^sup>2" using d by (rule zero_less_power2[THEN iffD2])
  ultimately show ?thesis
    using zero_le_mult_iff[of v "?d\<^sup>2"] by linarith
qed

subsection \<open>Domain checks\<close>

text \<open>
  C5, as the code behaves. The five estimators \<open>calculateProbHBMM\<close>, \<open>calculateProbHBM\<close>,
  \<open>calculateProbHKM\<close>, \<open>estimateGapSize\<close> and \<open>estimateInclusionHits\<close> check their
  numeric domain (rates and GC-content in the unit interval, a k-mer size of at least 1,
  a confidence strictly between 0 and 1) and raise \<^verbatim>\<open>RuntimeError\<close> outside it;
  \<open>estimateExclusionHits\<close> checks nothing and returns 1.
\<close>

theorem estimators_check_domain:
  "(GC < 0 \<or> 1 < GC \<longrightarrow>
      calculateProbHBMM ar GC = Inl (RuntimeError ''The GC-content is out of range.'')) \<and>
   (\<not> (0 \<le> M \<and> M \<le> 1 \<and> 0 \<le> GC \<and> GC \<le> 1) \<longrightarrow>
      (\<exists>msg. calculateProbHBM ar M GC = Inl (RuntimeError msg))) \<and>
   (\<not> (0 \<le> M \<and> M \<le> 1 \<and> 0 \<le> GC \<and> GC \<le> 1 \<and> 1 \<le> k) \<longrightarrow>
      (\<exists>msg. calculateProbHKM ar M GC k = Inl (RuntimeError msg))) \<and>
   (\<not> in_domain M GC k c \<longrightarrow> (\<exists>msg. estimateGapSize ar M GC k c = Inl (RuntimeError msg))) \<and>
   (\<not> in_domain M GC k c \<longrightarrow>
      (\<exists>msg. estimateInclusionHits ar ppf N M GC k c = Inl (RuntimeError msg))) \<and>
   estimateExclusionHits t r k = Inr 1"
  by (auto simp: calculateProbHBMM_def calculateProbHBM_def calculateProbHKM_def
      estimateGapSize_def estimateInclusionHits_def estimateExclusionHits_def in_domain_def)

theorem estimators_check_domain_witness:
  "((2::real) < 0 \<or> 1 < (2::real)) \<and>
   calculateProbHBMM exact 2 = Inl (RuntimeError ''The GC-content is out of range.'') \<and>
   (\<exists>msg. calculateProbHBM exact (- 1) 2 = Inl (RuntimeError msg)) \<and>
   (\<exists>msg. calculateProbHKM exact (- 1) 2 0 = Inl (RuntimeError msg)) \<and>
   (\<exists>msg. estimateGapSize exact (- 1) 2 0 1 = Inl (RuntimeError msg)) \<and>
   (\<exists>msg. estimateInclusionHits exact (\<lambda>c. 0) 3 (- 1) 2 0 1 = Inl (RuntimeError msg)) \<and>
   estimateExclusionHits 3 (1 / 100) 0 = Inr 1"
  using estimators_check_domain[of 2 exact "- 1" 0 1 "\<lambda>c. 0" 3 3 "1 / 100"]
  by (simp add: in_domain_def)

text \<open>
  C5, as the specification states it, fails: with a negative number of targets, a rate
  above 1 and a k-mer size below 1, \<open>estimateExclusionHits\<close> returns a value.
\<close>

theorem estimateExclusionHits_unchecked: "estimateExclusionHits (- 1) 2 0 = Inr 1"
  by (simp add: estimateExclusionHits_def)

text \<open>\<open>estimateSignatureSize\<close> has no check either: a k-mer size of 0 gives 0.\<close>

lemma estimateSignatureSize_unchecked: "estimateSignatureSize exact 0 = Inr 0"
  by (simp add: estimateSignatureSize_def exact_simps int_of_float_def)

text \<open>
  C6. \<open>estimateExclusionHits\<close> returns the constant 1 for every combination of its three
  arguments.
\<close>

theorem estimateExclusionHits_constant:
  "estimateExclusionHits totalExclusion rate kmerSize = Inr 1"
  by (simp add: estimateExclusionHits_def)

subsection \<open>The inclusion hits\<close>












section \<open>Properties of the k-mer tables\<close>

lemma keys_update: "set (map fst (AList.update k v al)) = insert k (set (map fst al))"
  using AList.dom_update[of k v al] by simp

lemma set_update_subset: "set (AList.update k v al) \<subseteq> insert (k, v) (set al)"
  by (induction al) auto

lemma buildKMers_keys:
  "map kmer_line kmerFile = map Inr table \<Longrightarrow>
   \<exists>ins exs. buildKMers kmerFile inmers exmers inhits exhits = Inr (ins, exs) \<and>
     set (map fst ins) =
       set (map fst inmers) \<union> {kmer. \<exists>ic ec. (kmer, ic, ec) \<in> set table \<and> inhits \<le> real_of_int ic} \<and>
     set (map fst exs) =
       set (map fst exmers) \<union> {kmer. \<exists>ic ec. (kmer, ic, ec) \<in> set table \<and> exhits \<le> real_of_int ec} \<and>
     set ins \<subseteq> set inmers \<union> {(kmer, ic). \<exists>ec. (kmer, ic, ec) \<in> set table \<and> inhits \<le> real_of_int ic} \<and>
     set exs \<subseteq> set exmers \<union> {(kmer, ec). \<exists>ic. (kmer, ic, ec) \<in> set table \<and> exhits \<le> real_of_int ec}"
proof (induction kmerFile arbitrary: table inmers exmers)
  case Nil
  then show ?case by simp
next
  case (Cons line kmerFile)
  from Cons.prems obtain entry rest where
    table: "table = entry # rest" and line: "kmer_line line = Inr entry"
    and rest: "map kmer_line kmerFile = map Inr rest"
    by (cases table) auto
  obtain kmer ic ec where entry: "entry = (kmer, ic, ec)" by (cases entry)
  let ?in1 = "if real_of_int ic \<ge> inhits then AList.update kmer ic inmers else inmers"
  let ?ex1 = "if real_of_int ec \<ge> exhits then AList.update kmer ec exmers else exmers"
  from Cons.IH[OF rest, of ?in1 ?ex1] obtain ins exs where
    run: "buildKMers kmerFile ?in1 ?ex1 inhits exhits = Inr (ins, exs)"
    and ki: "set (map fst ins) = set (map fst ?in1) \<union>
        {kmer. \<exists>ic ec. (kmer, ic, ec) \<in> set rest \<and> inhits \<le> real_of_int ic}"
    and ke: "set (map fst exs) = set (map fst ?ex1) \<union>
        {kmer. \<exists>ic ec. (kmer, ic, ec) \<in> set rest \<and> exhits \<le> real_of_int ec}"
    and si: "set ins \<subseteq> set ?in1 \<union>
        {(kmer, ic). \<exists>ec. (kmer, ic, ec) \<in> set rest \<and> inhits \<le> real_of_int ic}"
    and se: "set exs \<subseteq> set ?ex1 \<union>
        {(kmer, ec). \<exists>ic. (kmer, ic, ec) \<in> set rest \<and> exhits \<le> real_of_int ec}"
    by blast
  have r: "buildKMers (line # kmerFile) inmers exmers inhits exhits = Inr (ins, exs)"
    using run by (simp add: line entry Let_def)
  have ki': "set (map fst ins) = set (map fst inmers) \<union>
        {kmer. \<exists>ic ec. (kmer, ic, ec) \<in> set table \<and> inhits \<le> real_of_int ic}"
    unfolding ki table entry by (auto simp: keys_update simp del: set_map)
  have ke': "set (map fst exs) = set (map fst exmers) \<union>
        {kmer. \<exists>ic ec. (kmer, ic, ec) \<in> set table \<and> exhits \<le> real_of_int ec}"
    unfolding ke table entry by (auto simp: keys_update simp del: set_map)
  have si': "set ins \<subseteq> set inmers \<union>
        {(kmer, ic). \<exists>ec. (kmer, ic, ec) \<in> set table \<and> inhits \<le> real_of_int ic}"
    using si set_update_subset[of kmer ic inmers] unfolding table entry
    by (auto split: if_splits)
  have se': "set exs \<subseteq> set exmers \<union>
        {(kmer, ec). \<exists>ic. (kmer, ic, ec) \<in> set table \<and> exhits \<le> real_of_int ec}"
    using se set_update_subset[of kmer ec exmers] unfolding table entry
    by (auto split: if_splits)
  from r ki' ke' si' se' show ?case by blast
qed

text \<open>
  C9. For a k-mer file whose lines parse to the count table \<open>table\<close>, a mapping from
  k-mer to the pair of its counts, and two dictionaries that start empty, \<open>buildKMers\<close>
  returns dictionaries whose key sets are exactly the k-mers with an inclusion count of
  at least \<open>inhits\<close> and the k-mers with an exclusion count of at least \<open>exhits\<close>. The
  two sets are filled independently, so a k-mer that meets both thresholds is in both.
\<close>

theorem buildKMers_sets:
  assumes "map kmer_line kmerFile = map Inr table" and "distinct (map fst table)"
  shows "\<exists>inmers exmers. buildKMers kmerFile [] [] inhits exhits = Inr (inmers, exmers) \<and>
     set (map fst inmers) =
       {kmer. \<exists>ic ec. map_of table kmer = Some (ic, ec) \<and> inhits \<le> real_of_int ic} \<and>
     set (map fst exmers) =
       {kmer. \<exists>ic ec. map_of table kmer = Some (ic, ec) \<and> exhits \<le> real_of_int ec}"
proof -
  from buildKMers_keys[OF assms(1), of "[]" "[]" inhits exhits] obtain ins exs where
    run: "buildKMers kmerFile [] [] inhits exhits = Inr (ins, exs)"
    and ki: "set (map fst ins) =
        {kmer. \<exists>ic ec. (kmer, ic, ec) \<in> set table \<and> inhits \<le> real_of_int ic}"
    and ke: "set (map fst exs) =
        {kmer. \<exists>ic ec. (kmer, ic, ec) \<in> set table \<and> exhits \<le> real_of_int ec}"
    by auto
  have m: "(kmer, ic, ec) \<in> set table \<longleftrightarrow> map_of table kmer = Some (ic, ec)" for kmer ic ec
    using assms(2) by (auto dest: map_of_SomeD)
  from run ki ke show ?thesis unfolding m by blast
qed

lemma example_table:
  "map kmer_line [''AAAAA 3 1'', ''AAAAC 1 2'', ''AAAAG 3 3'', ''AAAAT 3 0''] =
   map Inr [(''AAAAA'', 3, 1), (''AAAAC'', 1, 2), (''AAAAG'', 3, 3), (''AAAAT'', 3, 0)]"
  by (simp add: kmer_line_def py_split_def is_space_def item_def bind_def strip_def py_int_def
      decimal_def is_digit_def digit_value_def)

lemma example_build:
  "buildKMers [''AAAAA 3 1'', ''AAAAC 1 2'', ''AAAAG 3 3'', ''AAAAT 3 0''] [] [] 3 2 =
   Inr ([(''AAAAA'', 3), (''AAAAG'', 3), (''AAAAT'', 3)], [(''AAAAC'', 2), (''AAAAG'', 3)])"
  by (simp add: kmer_line_def py_split_def is_space_def item_def bind_def strip_def py_int_def
      decimal_def is_digit_def digit_value_def)

theorem buildKMers_sets_witness:
  "map kmer_line [''AAAAA 3 1'', ''AAAAC 1 2'', ''AAAAG 3 3'', ''AAAAT 3 0''] =
     map Inr [(''AAAAA'', 3, 1), (''AAAAC'', 1, 2), (''AAAAG'', 3, 3), (''AAAAT'', 3, 0)] \<and>
   distinct (map fst
     [(''AAAAA'', 3::int, 1::int), (''AAAAC'', 1, 2), (''AAAAG'', 3, 3), (''AAAAT'', 3, 0)]) \<and>
   (\<exists>inmers exmers.
      buildKMers [''AAAAA 3 1'', ''AAAAC 1 2'', ''AAAAG 3 3'', ''AAAAT 3 0''] [] [] 3 2 =
        Inr (inmers, exmers) \<and>
      set (map fst inmers) =
        {kmer. \<exists>ic ec. map_of [(''AAAAA'', 3::int, 1::int), (''AAAAC'', 1, 2), (''AAAAG'', 3, 3),
                                 (''AAAAT'', 3, 0)] kmer = Some (ic, ec) \<and> 3 \<le> real_of_int ic} \<and>
      set (map fst exmers) =
        {kmer. \<exists>ic ec. map_of [(''AAAAA'', 3::int, 1::int), (''AAAAC'', 1, 2), (''AAAAG'', 3, 3),
                                 (''AAAAT'', 3, 0)] kmer = Some (ic, ec) \<and> 2 \<le> real_of_int ec}) \<and>
   buildKMers [''AAAAA 3 1'', ''AAAAC 1 2'', ''AAAAG 3 3'', ''AAAAT 3 0''] [] [] 3 2 =
     Inr ([(''AAAAA'', 3), (''AAAAG'', 3), (''AAAAT'', 3)], [(''AAAAC'', 2), (''AAAAG'', 3)])"
proof -
  have d: "distinct (map fst
     [(''AAAAA'', 3::int, 1::int), (''AAAAC'', 1, 2), (''AAAAG'', 3, 3), (''AAAAT'', 3, 0)])"
    by simp
  from buildKMers_sets[OF example_table d, of 3 2] example_table d example_build
  show ?thesis by blast
qed

end
